theory Spec2Isabelle
  imports Main
begin

section \<open>Python values used by the plugin\<close>

text \<open>
  A Python \<open>str\<close> is a sequence of Unicode code points, so it is modelled as a list of
  natural numbers (one per code point), not as a list of bytes. \<open>lit\<close> turns an ASCII
  literal into such a string.
\<close>

type_synonym py_str = "nat list"

definition lit :: "string \<Rightarrow> py_str" where
  "lit s = map of_char s"

text \<open>
  \<open>str.isspace\<close> of one code point, as CPython's \<open>_PyUnicode_IsWhitespace\<close> decides it:
  U+0009..U+000D, U+001C..U+0020, U+0085, U+00A0, U+1680, U+2000..U+200A, U+2028,
  U+2029, U+202F, U+205F and U+3000.
\<close>

definition isspace :: "nat \<Rightarrow> bool" where
  "isspace c =
     ((9 \<le> c \<and> c \<le> 13) \<or> (28 \<le> c \<and> c \<le> 32) \<or> c = 133 \<or> c = 160 \<or> c = 5760 \<or>
      (8192 \<le> c \<and> c \<le> 8202) \<or> c = 8232 \<or> c = 8233 \<or> c = 8239 \<or> c = 8287 \<or>
      c = 12288)"

text \<open>\<open>s.strip()\<close>: leading and trailing whitespace removed.\<close>

definition strip :: "py_str \<Rightarrow> py_str" where
  "strip s = rev (dropWhile isspace (rev (dropWhile isspace s)))"

text \<open>
  Identifiers coming from the platform (\<open>launcher_id\<close>, \<open>sender.id\<close>, \<open>group.id\<close>,
  \<open>bot_account_id\<close>) are integers or strings; the plugin passes each through \<open>str()\<close>.
\<close>

datatype py_id = IntId int | StrId py_str

fun str_nat :: "nat \<Rightarrow> py_str" where
  "str_nat n = (if n < 10 then [48 + n] else str_nat (n div 10) @ [48 + n mod 10])"

declare str_nat.simps [simp del]

definition str_int :: "int \<Rightarrow> py_str" where
  "str_int i = (if i < 0 then 45 # str_nat (nat (- i)) else str_nat (nat i))"

fun str :: "py_id \<Rightarrow> py_str" where
  "str (IntId i) = str_int i"
| "str (StrId s) = s"

text \<open>
  Exceptions are instances of Python's \<open>Exception\<close> class (what \<open>except Exception\<close>
  catches): the class name and the text \<open>str(e)\<close> gives. Signals outside that class
  (\<open>KeyboardInterrupt\<close>, the cancellation of a task) are not part of the model.
\<close>

datatype py_exception = Exception string py_str

section \<open>Logging\<close>

text \<open>
  The plugin logs f-strings through \<open>self.ap.logger\<close>. An f-string is kept as its parts,
  literal text and the values interpolated into it, in order; the logger is the list of
  the records it has received, oldest first.
\<close>

datatype fpart =
    Text py_str
  | Fmt_str py_str
  | Fmt_list "py_str list"
  | Fmt_bool bool
  | Fmt_exc py_exception

type_synonym fstring = "fpart list"

text \<open>\<open>fl\<close>: the plugin's prefix, U+1F9E9 and \<open>[ChatLogger]\<close>, before the message.\<close>

definition fl :: "fstring \<Rightarrow> fstring" where
  "fl msg = Text (129513 # lit '' [ChatLogger] '') # msg"

datatype log_level = DEBUG | INFO | WARNING | ERROR

section \<open>Storage\<close>

datatype tzinfo = timezone_utc

record py_datetime =
  instant :: int
  tzinfo :: "tzinfo option"

text \<open>
  A \<open>ChatRecord\<close> object: \<open>row_id\<close> is the column \<open>id\<close>, which the storage assigns on
  insert; \<open>datetime\<close> is \<open>None\<close> when the constructor was not given one, and the column's
  default applies on insert.
\<close>

record ChatRecord =
  row_id :: "nat option"
  datetime :: "py_datetime option"
  user_id :: py_str
  nickname :: "py_str option"
  message :: py_str
  group_id :: py_str

record database =
  table_exists :: bool
  group_msg :: "ChatRecord list"
  next_id :: nat

text \<open>
  An engine stands for the storage backend behind \<open>create_async_engine\<close>: whether
  creating the tables, committing a given record and disposing raise.
\<close>

record engine =
  url :: py_str
  create_all_raises :: "py_exception option"
  commit_raises :: "ChatRecord \<Rightarrow> database \<Rightarrow> py_exception option"
  dispose_raises :: "py_exception option"

datatype async_sessionmaker = Sessionmaker engine

section \<open>The host and the plugin\<close>

datatype event_class = GroupMessageReceived | NormalMessageResponded

datatype handler_ref = Ref_on_group_message_received | Ref_on_normal_message_responded

datatype loader =
    PluginManifestLoader "(event_class \<times> handler_ref) list"
  | OtherLoader

text \<open>
  The host application \<open>self.ap\<close> and what lies behind it: the logger, the plugin
  loaders, the file system's answer to \<open>mkdir\<close>, the database driver, the database, the
  clock, and the moment the class body of \<open>ChatRecord\<close> was evaluated.
\<close>

record host =
  logger :: "(log_level \<times> fstring) list"
  loaders :: "loader list"
  mkdir_raises :: "py_exception option"
  directories :: "py_str set"
  create_async_engine :: "py_str \<Rightarrow> py_exception + engine"
  db :: database
  now :: int
  class_body_time :: int

text \<open>The plugin's configuration: the five keys \<open>initialize\<close> reads, each present or not.\<close>

record config =
  cfg_database_url :: "py_str option"
  cfg_bot_nickname :: "py_str option"
  cfg_include_bot_messages :: "bool option"
  cfg_group_whitelist :: "py_str list option"
  cfg_group_blacklist :: "py_str list option"

record ChatLoggerPlugin =
  config :: "config option"
  engine :: "engine option"
  session_factory :: "async_sessionmaker option"
  database_url :: py_str
  bot_nickname :: py_str
  include_bot_messages :: bool
  group_whitelist :: "py_str list"
  group_blacklist :: "py_str list"

text \<open>\<open>__init__\<close>: the plugin as constructed, before \<open>initialize\<close>.\<close>

definition init :: "config option \<Rightarrow> ChatLoggerPlugin" where
  "init c =
     \<lparr>config = c, engine = None, session_factory = None,
      database_url = lit ''sqlite+aiosqlite:///./data/plugins/ChatLogger/chat_logs.db'',
      bot_nickname = lit ''Self'', include_bot_messages = True,
      group_whitelist = [], group_blacklist = []\<rparr>"

definition log :: "log_level \<Rightarrow> fstring \<Rightarrow> host \<Rightarrow> host" where
  "log lv m w = w\<lparr>logger := logger w @ [(lv, m)]\<rparr>"

text \<open>\<open>datetime.now(tz=timezone.utc)\<close>, read from the host's clock.\<close>

definition datetime_now_utc :: "host \<Rightarrow> py_datetime" where
  "datetime_now_utc w = \<lparr>instant = now w, tzinfo = Some timezone_utc\<rparr>"

text \<open>
  The column default of \<open>ChatRecord.datetime\<close> is the value of
  \<open>datetime.now(tz=timezone.utc)\<close> at the time the class body ran.
\<close>

definition datetime_column_default :: "host \<Rightarrow> py_datetime" where
  "datetime_column_default w = \<lparr>instant = class_body_time w, tzinfo = Some timezone_utc\<rparr>"

text \<open>
  Inserting a record: the storage assigns the next id, and a record without a
  \<open>datetime\<close> gets the column default.
\<close>

definition insert_row :: "host \<Rightarrow> ChatRecord \<Rightarrow> database \<Rightarrow> database" where
  "insert_row w r d =
     d\<lparr>group_msg := group_msg d @
          [r\<lparr>row_id := Some (next_id d),
             datetime := (case datetime r of
                            None \<Rightarrow> Some (datetime_column_default w)
                          | Some t \<Rightarrow> Some t)\<rparr>],
       next_id := Suc (next_id d)\<rparr>"

text \<open>
  One unit of work, \<open>async with self.session_factory() as session\<close>, \<open>session.add\<close>,
  \<open>session.commit\<close>: it raises and leaves the table as it was, or inserts the row.
\<close>

definition session_commit ::
  "async_sessionmaker \<Rightarrow> ChatRecord \<Rightarrow> host \<Rightarrow> (py_exception + unit) \<times> host" where
  "session_commit sf r w =
     (case sf of Sessionmaker eng \<Rightarrow>
        (case commit_raises eng r (db w) of
           Some e \<Rightarrow> (Inl e, w)
         | None \<Rightarrow> (Inr (), w\<lparr>db := insert_row w r (db w)\<rparr>)))"

section \<open>The group filter\<close>

text \<open>
  \<open>_should_log_group\<close>: a non-empty whitelist that does not hold \<open>str(group_id)\<close>
  rejects; then a blacklist that holds it rejects; everything else is logged.
\<close>

definition should_log_group :: "ChatLoggerPlugin \<Rightarrow> py_id \<Rightarrow> bool" where
  "should_log_group self gid =
     (let group_id_str = str gid in
      if group_whitelist self \<noteq> [] \<and> group_id_str \<notin> set (group_whitelist self) then False
      else if group_id_str \<in> set (group_blacklist self) then False
      else True)"

section \<open>The record writer\<close>

text \<open>
  \<open>_save_chat_record\<close>. The result is \<open>Inr ()\<close> when the call returns and \<open>Inl e\<close> when
  it raises \<open>e\<close> to its caller; the host is returned as the call leaves it.
\<close>

definition save_chat_record ::
  "ChatLoggerPlugin \<Rightarrow> py_str \<Rightarrow> py_str option \<Rightarrow> py_str \<Rightarrow> py_str \<Rightarrow> bool \<Rightarrow> host \<Rightarrow>
   (py_exception + unit) \<times> host" where
  "save_chat_record self user_id' nickname' message' group_id' is_bot_message w =
     (case session_factory self of
        None \<Rightarrow>
          (Inr (), log WARNING (fl [Text (lit ''Database not initialized, skipping record save'')]) w)
      | Some sf \<Rightarrow>
          (let record =
                 \<lparr>row_id = None, datetime = Some (datetime_now_utc w), user_id = user_id',
                  nickname = nickname', message = message', group_id = group_id'\<rparr>
           in case session_commit sf record w of
                (Inl e, w') \<Rightarrow>
                  (Inr (), log ERROR (fl [Text (lit ''Failed to save chat record: ''), Fmt_exc e]) w')
              | (Inr u, w') \<Rightarrow>
                  (Inr (),
                   log DEBUG
                     (fl [Text (lit ''Saved chat record from user ''), Fmt_str user_id',
                          Text (lit '' in group ''), Fmt_str group_id']) w')))"

section \<open>Events\<close>

text \<open>
  What the handlers read from an event. Reading through the query
  (\<open>event.query.message_event\<close>, \<open>ctx.event.query.adapter.bot_account_id\<close>) and calling
  into the platform's objects (\<open>str(message_chain)\<close>, \<open>sender.get_name()\<close>) can raise on
  a malformed event, so each of these is a value or an exception.
\<close>

record group_message =
  gm_message_chain :: "py_exception + py_str"
  gm_sender_get_name :: "py_exception + py_str option"
  gm_sender_id :: py_id
  gm_group_id :: py_id

datatype message_event = GroupMessage group_message | OtherMessageEvent

record event =
  launcher_type :: py_str
  launcher_id :: py_id

record GroupMessageReceived_event = event +
  query_message_event :: "py_exception + message_event"

record NormalMessageResponded_event = event +
  prefix :: "py_str option"
  response_text :: "py_str option"
  query_adapter_bot_account_id :: "py_exception + py_id"

text \<open>
  Both handlers return \<open>None\<close> at every exit. The model's result names the exit taken:
  one constructor per \<open>return\<close> statement, one for falling off the end after the call
  of \<open>_save_chat_record\<close>, and one for leaving through the \<open>except\<close> clause.
\<close>

datatype handler_exit =
    Return_bot_messages_off
  | Return_not_group_launcher
  | Return_group_filtered
  | Return_not_GroupMessage
  | Return_empty_text
  | End_after_save
  | End_after_except

section \<open>The handlers\<close>

text \<open>The \<open>try\<close> block of \<open>on_group_message_received\<close>.\<close>

definition on_group_message_received_try ::
  "ChatLoggerPlugin \<Rightarrow> GroupMessageReceived_event \<Rightarrow> host \<Rightarrow>
   (py_exception + handler_exit) \<times> host" where
  "on_group_message_received_try self ev w =
     (if \<not> should_log_group self (launcher_id ev) then (Inr Return_group_filtered, w)
      else case query_message_event ev of
        Inl e \<Rightarrow> (Inl e, w)
      | Inr OtherMessageEvent \<Rightarrow> (Inr Return_not_GroupMessage, w)
      | Inr (GroupMessage gm) \<Rightarrow>
          (case gm_message_chain gm of
             Inl e \<Rightarrow> (Inl e, w)
           | Inr message_text \<Rightarrow>
               if strip message_text = [] then (Inr Return_empty_text, w)
               else case gm_sender_get_name gm of
                 Inl e \<Rightarrow> (Inl e, w)
               | Inr nickname' \<Rightarrow>
                   (case save_chat_record self (str (gm_sender_id gm)) nickname' message_text
                           (str (gm_group_id gm)) False w of
                      (Inl e, w') \<Rightarrow> (Inl e, w')
                    | (Inr u, w') \<Rightarrow> (Inr End_after_save, w'))))"

definition on_group_message_received ::
  "ChatLoggerPlugin \<Rightarrow> GroupMessageReceived_event \<Rightarrow> host \<Rightarrow>
   (py_exception + handler_exit) \<times> host" where
  "on_group_message_received self ev w =
     (case on_group_message_received_try self ev w of
        (Inl e, w') \<Rightarrow>
          (Inr End_after_except,
           log ERROR (fl [Text (lit ''Error handling group message: ''), Fmt_exc e]) w')
      | (Inr x, w') \<Rightarrow> (Inr x, w'))"

text \<open>
  \<open>full_response\<close>: the prefix, when it is truthy, then the response text, when it is
  truthy.
\<close>

definition full_response :: "NormalMessageResponded_event \<Rightarrow> py_str" where
  "full_response ev =
     (case prefix ev of None \<Rightarrow> [] | Some p \<Rightarrow> if p \<noteq> [] then p else []) @
     (case response_text ev of None \<Rightarrow> [] | Some r \<Rightarrow> if r \<noteq> [] then r else [])"

text \<open>The \<open>try\<close> block of \<open>on_normal_message_responded\<close>.\<close>

definition on_normal_message_responded_try ::
  "ChatLoggerPlugin \<Rightarrow> NormalMessageResponded_event \<Rightarrow> host \<Rightarrow>
   (py_exception + handler_exit) \<times> host" where
  "on_normal_message_responded_try self ev w =
     (if \<not> include_bot_messages self then (Inr Return_bot_messages_off, w)
      else if launcher_type ev \<noteq> lit ''group'' then (Inr Return_not_group_launcher, w)
      else if \<not> should_log_group self (launcher_id ev) then (Inr Return_group_filtered, w)
      else if strip (full_response ev) = [] then (Inr Return_empty_text, w)
      else case query_adapter_bot_account_id ev of
        Inl e \<Rightarrow> (Inl e, w)
      | Inr bot_user_id \<Rightarrow>
          (case save_chat_record self (str bot_user_id) (Some (bot_nickname self))
                  (full_response ev) (str (launcher_id ev)) True w of
             (Inl e, w') \<Rightarrow> (Inl e, w')
           | (Inr u, w') \<Rightarrow> (Inr End_after_save, w')))"

definition on_normal_message_responded ::
  "ChatLoggerPlugin \<Rightarrow> NormalMessageResponded_event \<Rightarrow> host \<Rightarrow>
   (py_exception + handler_exit) \<times> host" where
  "on_normal_message_responded self ev w =
     (case on_normal_message_responded_try self ev w of
        (Inl e, w') \<Rightarrow>
          (Inr End_after_except,
           log ERROR (fl [Text (lit ''Error handling bot response: ''), Fmt_exc e]) w')
      | (Inr x, w') \<Rightarrow> (Inr x, w'))"

section \<open>Start and stop\<close>







section \<open>Example inputs\<close>

text \<open>
  A backend that accepts everything, one that has lost its connection, and a host whose
  clock has moved on since the class body of \<open>ChatRecord\<close> ran.
\<close>

definition healthy_engine :: engine where
  "healthy_engine =
     \<lparr>url = lit ''sqlite+aiosqlite:///./chat.db'', create_all_raises = None,
      commit_raises = (\<lambda>r d. None), dispose_raises = None\<rparr>"

definition disconnected :: py_exception where
  "disconnected = Exception ''OperationalError'' (lit ''connection lost'')"

definition broken_engine :: engine where
  "broken_engine =
     \<lparr>url = lit ''sqlite+aiosqlite:///./chat.db'', create_all_raises = Some disconnected,
      commit_raises = (\<lambda>r d. Some disconnected), dispose_raises = Some disconnected\<rparr>"

definition example_host :: host where
  "example_host =
     \<lparr>logger = [], loaders = [OtherLoader, PluginManifestLoader []], mkdir_raises = None,
      directories = {}, create_async_engine = (\<lambda>u. Inr healthy_engine),
      db = \<lparr>table_exists = True, group_msg = [], next_id = 1\<rparr>,
      now = 1700000000, class_body_time = 1600000000\<rparr>"

definition example_plugin :: ChatLoggerPlugin where
  "example_plugin =
     (init None)\<lparr>engine := Some healthy_engine,
                 session_factory := Some (Sessionmaker healthy_engine)\<rparr>"

definition example_group_message :: group_message where
  "example_group_message =
     \<lparr>gm_message_chain = Inr (lit ''hi''), gm_sender_get_name = Inr (Some (lit ''Alice'')),
      gm_sender_id = IntId 31, gm_group_id = IntId 2002\<rparr>"

definition example_group_event :: GroupMessageReceived_event where
  "example_group_event =
     \<lparr>launcher_type = lit ''group'', launcher_id = IntId 1001,
      query_message_event = Inr (GroupMessage example_group_message)\<rparr>"

definition example_bot_event :: NormalMessageResponded_event where
  "example_bot_event =
     \<lparr>launcher_type = lit ''group'', launcher_id = IntId 1001,
      prefix = Some (lit ''[auto] ''), response_text = Some (lit ''done''),
      query_adapter_bot_account_id = Inr (IntId 99)\<rparr>"

section \<open>Properties of the group filter\<close>

text \<open>
  C1. Blacklist precedence: whenever the string form of a group id is a member of the
  blacklist, the filter rejects the group, whatever the whitelist holds (also a
  non-empty whitelist that names the same group).
\<close>

theorem blacklist_precedence:
  "str g \<in> set (group_blacklist self) \<Longrightarrow> \<not> should_log_group self g"
  by (simp add: should_log_group_def Let_def)

theorem blacklist_precedence_witness:
  "str (IntId 1001) \<in> set (group_blacklist ((init None)\<lparr>group_whitelist := [lit ''1001''], group_blacklist := [lit ''1001'']\<rparr>)) \<and>
   str (IntId 1001) \<in> set (group_whitelist ((init None)\<lparr>group_whitelist := [lit ''1001''], group_blacklist := [lit ''1001'']\<rparr>)) \<and>
   \<not> should_log_group ((init None)\<lparr>group_whitelist := [lit ''1001''], group_blacklist := [lit ''1001'']\<rparr>) (IntId 1001)"
proof -
  have s: "str_int 1001 = lit ''1001''"
    by (simp add: str_int_def str_nat.simps lit_def)
  have h: "str (IntId 1001) \<in> set (group_blacklist ((init None)\<lparr>group_whitelist := [lit ''1001''], group_blacklist := [lit ''1001'']\<rparr>))"
    by (simp add: s)
  from blacklist_precedence [OF h] h show ?thesis
    by (simp add: s)
qed

text \<open>
  C2. Whitelist semantics: with both lists empty every group is logged; with a non-empty
  whitelist and an empty blacklist a group is logged exactly when its string form is a
  member of the whitelist.
\<close>

theorem whitelist_semantics:
  "(group_whitelist self = [] \<and> group_blacklist self = [] \<longrightarrow> should_log_group self g) \<and>
   (group_whitelist self \<noteq> [] \<and> group_blacklist self = [] \<longrightarrow>
      should_log_group self g = (str g \<in> set (group_whitelist self)))"
  by (simp add: should_log_group_def Let_def)

theorem whitelist_semantics_witness:
  "should_log_group (init None) (IntId 42) \<and>
   should_log_group ((init None)\<lparr>group_whitelist := [lit ''42'', lit ''g7'']\<rparr>) (IntId 42) \<and>
   \<not> should_log_group ((init None)\<lparr>group_whitelist := [lit ''42'', lit ''g7'']\<rparr>) (StrId (lit ''g8''))"
  using whitelist_semantics [of "init None" "IntId 42"]
    whitelist_semantics [of "(init None)\<lparr>group_whitelist := [lit ''42'', lit ''g7'']\<rparr>" "IntId 42"]
    whitelist_semantics [of "(init None)\<lparr>group_whitelist := [lit ''42'', lit ''g7'']\<rparr>" "StrId (lit ''g8'')"]
  by (simp add: init_def str_int_def str_nat.simps lit_def)

section \<open>Properties of the record writer\<close>

text \<open>
  C4. Fail-soft append: \<open>_save_chat_record\<close> never raises to its caller. Without a
  session factory it logs one record at warning level, leaves the database as it was
  and returns; when the commit raises, the exception is logged at error level, the
  database is left as it was and the call returns.
\<close>

theorem save_chat_record_fail_soft:
  "fst (save_chat_record self u n m g b w) = Inr () \<and>
   (session_factory self = None \<longrightarrow>
      snd (save_chat_record self u n m g b w) =
        log WARNING (fl [Text (lit ''Database not initialized, skipping record save'')]) w \<and>
      db (snd (save_chat_record self u n m g b w)) = db w) \<and>
   (session_factory self = Some (Sessionmaker eng) \<and>
    commit_raises eng
      \<lparr>row_id = None, datetime = Some (datetime_now_utc w), user_id = u, nickname = n,
       message = m, group_id = g\<rparr> (db w) = Some e \<longrightarrow>
      snd (save_chat_record self u n m g b w) =
        log ERROR (fl [Text (lit ''Failed to save chat record: ''), Fmt_exc e]) w \<and>
      db (snd (save_chat_record self u n m g b w)) = db w)"
  by (simp add: save_chat_record_def session_commit_def log_def Let_def
      split: option.splits async_sessionmaker.splits)

theorem save_chat_record_fail_soft_witness:
  "save_chat_record (init None) (lit ''u1'') (Some (lit ''Alice'')) (lit ''hi'') (lit ''g1'') False
     example_host =
     (Inr (), log WARNING (fl [Text (lit ''Database not initialized, skipping record save'')])
                example_host) \<and>
   save_chat_record ((init None)\<lparr>session_factory := Some (Sessionmaker broken_engine)\<rparr>)
     (lit ''u1'') (Some (lit ''Alice'')) (lit ''hi'') (lit ''g1'') False example_host =
     (Inr (), log ERROR (fl [Text (lit ''Failed to save chat record: ''), Fmt_exc disconnected])
                example_host)"
proof -
  have a: "session_factory (init None) = None"
    by (simp add: init_def)
  have b: "session_factory ((init None)\<lparr>session_factory := Some (Sessionmaker broken_engine)\<rparr>)
             = Some (Sessionmaker broken_engine) \<and>
           commit_raises broken_engine
             \<lparr>row_id = None, datetime = Some (datetime_now_utc example_host), user_id = lit ''u1'',
              nickname = Some (lit ''Alice''), message = lit ''hi'', group_id = lit ''g1''\<rparr>
             (db example_host) = Some disconnected"
    by (simp add: broken_engine_def)
  from a b
    save_chat_record_fail_soft
      [of "init None" "lit ''u1''" "Some (lit ''Alice'')" "lit ''hi''" "lit ''g1''" False
          example_host]
    save_chat_record_fail_soft
      [of "(init None)\<lparr>session_factory := Some (Sessionmaker broken_engine)\<rparr>"
          "lit ''u1''" "Some (lit ''Alice'')" "lit ''hi''" "lit ''g1''" False example_host
          broken_engine disconnected]
  show ?thesis by (simp add: prod_eq_iff)
qed

text \<open>
  C9. Record timestamp: a record that \<open>_save_chat_record\<close> stores carries the UTC time
  read from the clock during that call, with \<open>tzinfo\<close> set to UTC; the statement does
  not depend on the time at which the class body, and with it the column default, was
  evaluated.
\<close>

theorem record_timestamp:
  assumes "session_factory self = Some (Sessionmaker eng)"
    and "commit_raises eng
           \<lparr>row_id = None, datetime = Some \<lparr>instant = now w, tzinfo = Some timezone_utc\<rparr>,
            user_id = u, nickname = n, message = m, group_id = g\<rparr> (db w) = None"
  shows "group_msg (db (snd (save_chat_record self u n m g b w))) =
           group_msg (db w) @
             [\<lparr>row_id = Some (next_id (db w)),
               datetime = Some \<lparr>instant = now w, tzinfo = Some timezone_utc\<rparr>,
               user_id = u, nickname = n, message = m, group_id = g\<rparr>]"
  using assms
  by (simp add: save_chat_record_def session_commit_def insert_row_def log_def Let_def
      datetime_now_utc_def)

theorem record_timestamp_witness:
  "class_body_time example_host = 1600000000 \<and> now example_host = 1700000000 \<and>
   group_msg (db (snd (save_chat_record example_plugin (lit ''u1'') (Some (lit ''Alice''))
                         (lit ''hi'') (lit ''g1'') False example_host))) =
     [\<lparr>row_id = Some 1, datetime = Some \<lparr>instant = 1700000000, tzinfo = Some timezone_utc\<rparr>,
       user_id = lit ''u1'', nickname = Some (lit ''Alice''), message = lit ''hi'',
       group_id = lit ''g1''\<rparr>]"
proof -
  have a: "session_factory example_plugin = Some (Sessionmaker healthy_engine)"
    by (simp add: example_plugin_def)
  have b: "commit_raises healthy_engine
           \<lparr>row_id = None,
            datetime = Some \<lparr>instant = now example_host, tzinfo = Some timezone_utc\<rparr>,
            user_id = lit ''u1'', nickname = Some (lit ''Alice''), message = lit ''hi'',
            group_id = lit ''g1''\<rparr> (db example_host) = None"
    by (simp add: healthy_engine_def)
  from record_timestamp [OF a b, of False]
  show ?thesis by (simp add: example_host_def)
qed

section \<open>Properties of the incoming-message handler\<close>

text \<open>
  C3, as stated: the handler rejects an event that is not a group message before it
  applies the group filter. It does not: for an event whose message event is not a
  \<open>GroupMessage\<close> and whose launcher is blacklisted, the handler leaves at the group
  filter's \<open>return\<close>, not at the type check's.
\<close>

theorem non_group_check_first_counterexample:
  "query_message_event (example_group_event\<lparr>query_message_event := Inr OtherMessageEvent\<rparr>)
     = Inr OtherMessageEvent \<and>
   fst (on_group_message_received (example_plugin\<lparr>group_blacklist := [lit ''1001'']\<rparr>)
          (example_group_event\<lparr>query_message_event := Inr OtherMessageEvent\<rparr>) example_host)
     \<noteq> Inr Return_not_GroupMessage \<and>
   fst (on_group_message_received (example_plugin\<lparr>group_blacklist := [lit ''1001'']\<rparr>)
          (example_group_event\<lparr>query_message_event := Inr OtherMessageEvent\<rparr>) example_host)
     = Inr Return_group_filtered"
  by (simp add: on_group_message_received_def on_group_message_received_try_def
      should_log_group_def Let_def str_int_def str_nat.simps lit_def
      example_plugin_def example_group_event_def init_def)

text \<open>
  C3, amended: the handler applies the group filter to the launcher id first and returns
  there when the group is filtered out, whatever the message event is (also when
  reading it would raise); only when the filter accepts the launcher does it test the
  message event, and return when it is not a \<open>GroupMessage\<close>. In both cases the host is
  left unchanged.
\<close>

theorem group_filter_precedes_type_check:
  "(\<not> should_log_group self (launcher_id ev) \<longrightarrow>
      on_group_message_received self ev w = (Inr Return_group_filtered, w)) \<and>
   (should_log_group self (launcher_id ev) \<and> query_message_event ev = Inr OtherMessageEvent \<longrightarrow>
      on_group_message_received self ev w = (Inr Return_not_GroupMessage, w))"
  by (simp add: on_group_message_received_def on_group_message_received_try_def)

theorem group_filter_precedes_type_check_witness:
  "on_group_message_received (example_plugin\<lparr>group_blacklist := [lit ''1001'']\<rparr>)
     (example_group_event\<lparr>query_message_event := Inl disconnected\<rparr>) example_host
     = (Inr Return_group_filtered, example_host) \<and>
   on_group_message_received example_plugin
     (example_group_event\<lparr>query_message_event := Inr OtherMessageEvent\<rparr>) example_host
     = (Inr Return_not_GroupMessage, example_host)"
proof -
  have a: "\<not> should_log_group (example_plugin\<lparr>group_blacklist := [lit ''1001'']\<rparr>)
             (launcher_id (example_group_event\<lparr>query_message_event := Inl disconnected\<rparr>))"
    by (simp add: should_log_group_def Let_def str_int_def str_nat.simps lit_def
        example_plugin_def example_group_event_def init_def)
  have b: "should_log_group example_plugin
             (launcher_id (example_group_event\<lparr>query_message_event := Inr OtherMessageEvent\<rparr>)) \<and>
           query_message_event (example_group_event\<lparr>query_message_event := Inr OtherMessageEvent\<rparr>)
             = Inr OtherMessageEvent"
    by (simp add: should_log_group_def Let_def example_plugin_def example_group_event_def init_def)
  from a b
    group_filter_precedes_type_check
      [of "example_plugin\<lparr>group_blacklist := [lit ''1001'']\<rparr>"
          "example_group_event\<lparr>query_message_event := Inl disconnected\<rparr>" example_host]
    group_filter_precedes_type_check
      [of example_plugin "example_group_event\<lparr>query_message_event := Inr OtherMessageEvent\<rparr>"
          example_host]
  show ?thesis by blast
qed

text \<open>
  C6. Empty-content suppression: when the message chain of a group message renders to a
  text that is empty after \<open>strip()\<close>, the handler returns with the host unchanged: no
  row is written and nothing is logged, so the record writer (which logs on each of its
  paths) was not called.
\<close>

theorem empty_message_not_written:
  assumes "query_message_event ev = Inr (GroupMessage gm)"
    and "gm_message_chain gm = Inr message_text"
    and "strip message_text = []"
  shows "snd (on_group_message_received self ev w) = w \<and>
         (fst (on_group_message_received self ev w) = Inr Return_group_filtered \<or>
          fst (on_group_message_received self ev w) = Inr Return_empty_text)"
  using assms
  by (simp add: on_group_message_received_def on_group_message_received_try_def)

theorem empty_message_not_written_witness:
  "strip (lit ''   '') = [] \<and>
   on_group_message_received (init None)
     (example_group_event
        \<lparr>query_message_event :=
           Inr (GroupMessage (example_group_message\<lparr>gm_message_chain := Inr (lit ''   '')\<rparr>))\<rparr>)
     example_host = (Inr Return_empty_text, example_host)"
proof -
  have a: "query_message_event
             (example_group_event
                \<lparr>query_message_event :=
                   Inr (GroupMessage (example_group_message\<lparr>gm_message_chain := Inr (lit ''   '')\<rparr>))\<rparr>) =
           Inr (GroupMessage (example_group_message\<lparr>gm_message_chain := Inr (lit ''   '')\<rparr>))"
    by simp
  have b: "gm_message_chain (example_group_message\<lparr>gm_message_chain := Inr (lit ''   '')\<rparr>) =
           Inr (lit ''   '')"
    by simp
  have c: "strip (lit ''   '') = []"
    by (simp add: strip_def isspace_def lit_def)
  have d: "fst (on_group_message_received (init None)
     (example_group_event
        \<lparr>query_message_event :=
           Inr (GroupMessage (example_group_message\<lparr>gm_message_chain := Inr (lit ''   '')\<rparr>))\<rparr>)
     example_host) \<noteq> Inr Return_group_filtered"
    by (simp add: on_group_message_received_def on_group_message_received_try_def
        should_log_group_def Let_def init_def c example_group_event_def
        example_group_message_def)
  from empty_message_not_written [OF a b c, of "init None" example_host] c d
  show ?thesis by (simp add: prod_eq_iff)
qed

text \<open>
  C10. The filter is applied to the event's \<open>launcher_id\<close>: a filtered launcher ends the
  handler. The stored \<open>group_id\<close> is \<open>str(group_message.group.id)\<close>, and no hypothesis
  about the filter's answer for that id is needed for the row to be stored: when the two
  identifiers differ, the stored one was never tested.
\<close>

theorem stored_group_id_not_filtered:
  "(\<not> should_log_group self (launcher_id ev) \<longrightarrow>
      on_group_message_received self ev w = (Inr Return_group_filtered, w)) \<and>
   (should_log_group self (launcher_id ev) \<and>
    query_message_event ev = Inr (GroupMessage gm) \<and>
    gm_message_chain gm = Inr message_text \<and> strip message_text \<noteq> [] \<and>
    gm_sender_get_name gm = Inr nick \<and>
    session_factory self = Some (Sessionmaker eng) \<and>
    commit_raises eng
      \<lparr>row_id = None, datetime = Some (datetime_now_utc w), user_id = str (gm_sender_id gm),
       nickname = nick, message = message_text, group_id = str (gm_group_id gm)\<rparr> (db w) = None
    \<longrightarrow>
      group_msg (db (snd (on_group_message_received self ev w))) =
        group_msg (db w) @
          [\<lparr>row_id = Some (next_id (db w)), datetime = Some (datetime_now_utc w),
            user_id = str (gm_sender_id gm), nickname = nick, message = message_text,
            group_id = str (gm_group_id gm)\<rparr>])"
  by (simp add: on_group_message_received_def on_group_message_received_try_def
      save_chat_record_def session_commit_def insert_row_def log_def Let_def)

theorem stored_group_id_not_filtered_witness:
  "launcher_id example_group_event = IntId 1001 \<and>
   gm_group_id example_group_message = IntId 2002 \<and>
   should_log_group (example_plugin\<lparr>group_blacklist := [lit ''2002'']\<rparr>) (IntId 1001) \<and>
   \<not> should_log_group (example_plugin\<lparr>group_blacklist := [lit ''2002'']\<rparr>) (IntId 2002) \<and>
   group_msg (db (snd (on_group_message_received
                         (example_plugin\<lparr>group_blacklist := [lit ''2002'']\<rparr>)
                         example_group_event example_host))) =
     [\<lparr>row_id = Some 1, datetime = Some \<lparr>instant = 1700000000, tzinfo = Some timezone_utc\<rparr>,
       user_id = lit ''31'', nickname = Some (lit ''Alice''), message = lit ''hi'',
       group_id = lit ''2002''\<rparr>]"
proof -
  have n: "str_int 31 = lit ''31''" "str_int 1001 = lit ''1001''" "str_int 2002 = lit ''2002''"
    by (simp_all add: str_int_def str_nat.simps lit_def)
  have s: "strip (lit ''hi'') \<noteq> []"
    by (simp add: strip_def isspace_def lit_def)
  have f: "should_log_group (example_plugin\<lparr>group_blacklist := [lit ''2002'']\<rparr>) (IntId 1001)"
    "\<not> should_log_group (example_plugin\<lparr>group_blacklist := [lit ''2002'']\<rparr>) (IntId 2002)"
    by (simp_all add: should_log_group_def Let_def example_plugin_def init_def
        str_int_def str_nat.simps lit_def)
  from stored_group_id_not_filtered
         [of "example_plugin\<lparr>group_blacklist := [lit ''2002'']\<rparr>" example_group_event
             example_host example_group_message "lit ''hi''" "Some (lit ''Alice'')"
             healthy_engine]
  have "group_msg (db (snd (on_group_message_received
                         (example_plugin\<lparr>group_blacklist := [lit ''2002'']\<rparr>)
                         example_group_event example_host))) =
     [\<lparr>row_id = Some 1, datetime = Some \<lparr>instant = 1700000000, tzinfo = Some timezone_utc\<rparr>,
       user_id = lit ''31'', nickname = Some (lit ''Alice''), message = lit ''hi'',
       group_id = lit ''2002''\<rparr>]"
    using f s by (simp add: n example_group_event_def example_group_message_def
        example_plugin_def init_def healthy_engine_def example_host_def datetime_now_utc_def)
  with f show ?thesis
    by (simp add: example_group_event_def example_group_message_def)
qed

section \<open>Properties of the bot-response handler\<close>

text \<open>
  C7. Bot-response concatenation: for an accepted bot response whose commit succeeds,
  the stored message is the prefix followed by the response text, an absent prefix or
  text counting as the empty string; when that concatenation is empty after \<open>strip()\<close>
  the handler leaves the host unchanged.
\<close>

theorem bot_response_concatenation:
  assumes "text = (case prefix ev of None \<Rightarrow> [] | Some p \<Rightarrow> p) @
                  (case response_text ev of None \<Rightarrow> [] | Some r \<Rightarrow> r)"
  shows "(include_bot_messages self \<and> launcher_type ev = lit ''group'' \<and>
          should_log_group self (launcher_id ev) \<and>
          query_adapter_bot_account_id ev = Inr bot_user_id \<and>
          session_factory self = Some (Sessionmaker eng) \<and>
          commit_raises eng
            \<lparr>row_id = None, datetime = Some (datetime_now_utc w), user_id = str bot_user_id,
             nickname = Some (bot_nickname self), message = text,
             group_id = str (launcher_id ev)\<rparr> (db w) = None \<and>
          strip text \<noteq> [] \<longrightarrow>
            group_msg (db (snd (on_normal_message_responded self ev w))) =
              group_msg (db w) @
                [\<lparr>row_id = Some (next_id (db w)), datetime = Some (datetime_now_utc w),
                  user_id = str bot_user_id, nickname = Some (bot_nickname self),
                  message = text, group_id = str (launcher_id ev)\<rparr>]) \<and>
         (strip text = [] \<longrightarrow> snd (on_normal_message_responded self ev w) = w)"
proof -
  have t: "full_response ev = text"
    using assms by (simp add: full_response_def split: option.splits)
  show ?thesis
    by (simp add: on_normal_message_responded_def on_normal_message_responded_try_def t
        save_chat_record_def session_commit_def insert_row_def log_def Let_def)
qed

theorem bot_response_concatenation_witness:
  "group_msg (db (snd (on_normal_message_responded example_plugin example_bot_event example_host))) =
     [\<lparr>row_id = Some 1, datetime = Some \<lparr>instant = 1700000000, tzinfo = Some timezone_utc\<rparr>,
       user_id = lit ''99'', nickname = Some (lit ''Self''), message = lit ''[auto] done'',
       group_id = lit ''1001''\<rparr>] \<and>
   group_msg (db (snd (on_normal_message_responded example_plugin
                         (example_bot_event\<lparr>prefix := None, response_text := Some (lit ''ok'')\<rparr>)
                         example_host))) =
     [\<lparr>row_id = Some 1, datetime = Some \<lparr>instant = 1700000000, tzinfo = Some timezone_utc\<rparr>,
       user_id = lit ''99'', nickname = Some (lit ''Self''), message = lit ''ok'',
       group_id = lit ''1001''\<rparr>] \<and>
   snd (on_normal_message_responded example_plugin
          (example_bot_event\<lparr>prefix := Some (lit '' ''), response_text := None\<rparr>) example_host) =
     example_host"
proof -
  have n: "str_int 99 = lit ''99''" "str_int 1001 = lit ''1001''"
    by (simp_all add: str_int_def str_nat.simps lit_def)
  have s1: "strip (lit ''[auto] done'') \<noteq> []" "strip (lit ''ok'') \<noteq> []" "strip (lit '' '') = []"
    by (simp_all add: strip_def isspace_def lit_def)
  have l: "lit ''[auto] '' @ lit ''done'' = lit ''[auto] done''"
    by (simp add: lit_def)
  have f: "should_log_group example_plugin (IntId 1001)"
    by (simp add: should_log_group_def Let_def example_plugin_def init_def)
  from bot_response_concatenation
         [of "lit ''[auto] done''" example_bot_event example_plugin "IntId 99" healthy_engine
             example_host]
  have 1: "group_msg (db (snd (on_normal_message_responded example_plugin example_bot_event
                                 example_host))) =
     [\<lparr>row_id = Some 1, datetime = Some \<lparr>instant = 1700000000, tzinfo = Some timezone_utc\<rparr>,
       user_id = lit ''99'', nickname = Some (lit ''Self''), message = lit ''[auto] done'',
       group_id = lit ''1001''\<rparr>]"
    using f s1 by (simp add: l n example_bot_event_def example_plugin_def init_def
        healthy_engine_def example_host_def datetime_now_utc_def)
  from bot_response_concatenation
         [of "lit ''ok''" "example_bot_event\<lparr>prefix := None, response_text := Some (lit ''ok'')\<rparr>"
             example_plugin "IntId 99" healthy_engine example_host]
  have 2: "group_msg (db (snd (on_normal_message_responded example_plugin
                         (example_bot_event\<lparr>prefix := None, response_text := Some (lit ''ok'')\<rparr>)
                         example_host))) =
     [\<lparr>row_id = Some 1, datetime = Some \<lparr>instant = 1700000000, tzinfo = Some timezone_utc\<rparr>,
       user_id = lit ''99'', nickname = Some (lit ''Self''), message = lit ''ok'',
       group_id = lit ''1001''\<rparr>]"
    using f s1 by (simp add: n example_bot_event_def example_plugin_def init_def
        healthy_engine_def example_host_def datetime_now_utc_def)
  from bot_response_concatenation
         [of "lit '' ''" "example_bot_event\<lparr>prefix := Some (lit '' ''), response_text := None\<rparr>"
             example_plugin "IntId 99" healthy_engine example_host]
  have 3: "snd (on_normal_message_responded example_plugin
          (example_bot_event\<lparr>prefix := Some (lit '' ''), response_text := None\<rparr>) example_host) =
     example_host"
    using s1 by simp
  from 1 2 3 show ?thesis by blast
qed

text \<open>
  C8. Bot-message gate: with \<open>include_bot_messages\<close> false the handler returns at its
  first statement, for every event and every whitelist and blacklist, and the host is
  unchanged.
\<close>

theorem bot_message_gate:
  "\<not> include_bot_messages self \<Longrightarrow>
   on_normal_message_responded self ev w = (Inr Return_bot_messages_off, w)"
  by (simp add: on_normal_message_responded_def on_normal_message_responded_try_def)

theorem bot_message_gate_witness:
  "\<not> include_bot_messages (example_plugin\<lparr>include_bot_messages := False\<rparr>) \<and>
   should_log_group (example_plugin\<lparr>include_bot_messages := False\<rparr>) (launcher_id example_bot_event) \<and>
   on_normal_message_responded (example_plugin\<lparr>include_bot_messages := False\<rparr>) example_bot_event
     example_host = (Inr Return_bot_messages_off, example_host)"
proof -
  have a: "\<not> include_bot_messages (example_plugin\<lparr>include_bot_messages := False\<rparr>)"
    by simp
  have b: "should_log_group (example_plugin\<lparr>include_bot_messages := False\<rparr>)
             (launcher_id example_bot_event)"
    by (simp add: should_log_group_def Let_def example_plugin_def init_def)
  from bot_message_gate [OF a, of example_bot_event example_host] a b
  show ?thesis by simp
qed

section \<open>Propagation of exceptions\<close>




end
